theory Spec2Isabelle
  imports Complex_Main
begin

section \<open>JavaScript numbers\<close>

text \<open>
  The simulation computes with JavaScript numbers. They are modelled as the real numbers
  extended with the three special values of IEEE 754 arithmetic: finite operations are
  exact (no rounding, overflow or underflow), and the special values follow the IEEE rules
  (\<open>1/0 = Infinity\<close>, \<open>0 * Infinity = NaN\<close>, every comparison with \<open>NaN\<close> is false).
  The sign of zero is not modelled: a zero divisor counts as \<open>+0\<close>.
\<close>

datatype jsnum = Fin real | PInf | NInf | NaN

fun jneg :: "jsnum \<Rightarrow> jsnum" where
  "jneg (Fin a) = Fin (- a)"
| "jneg PInf = NInf"
| "jneg NInf = PInf"
| "jneg NaN = NaN"

fun jadd :: "jsnum \<Rightarrow> jsnum \<Rightarrow> jsnum" where
  "jadd (Fin a) (Fin b) = Fin (a + b)"
| "jadd NaN b = NaN"
| "jadd a NaN = NaN"
| "jadd PInf NInf = NaN"
| "jadd NInf PInf = NaN"
| "jadd PInf b = PInf"
| "jadd a PInf = PInf"
| "jadd NInf b = NInf"
| "jadd a NInf = NInf"

definition jsub :: "jsnum \<Rightarrow> jsnum \<Rightarrow> jsnum" where
  "jsub a b = jadd a (jneg b)"

fun jsign :: "jsnum \<Rightarrow> real" where
  "jsign (Fin a) = sgn a"
| "jsign PInf = 1"
| "jsign NInf = - 1"
| "jsign NaN = 0"

fun jmul :: "jsnum \<Rightarrow> jsnum \<Rightarrow> jsnum" where
  "jmul (Fin a) (Fin b) = Fin (a * b)"
| "jmul NaN b = NaN"
| "jmul a NaN = NaN"
| "jmul a b = (if jsign a * jsign b > 0 then PInf
               else if jsign a * jsign b < 0 then NInf else NaN)"

fun jdiv :: "jsnum \<Rightarrow> jsnum \<Rightarrow> jsnum" where
  "jdiv NaN b = NaN"
| "jdiv a NaN = NaN"
| "jdiv (Fin a) (Fin b) =
     (if b \<noteq> 0 then Fin (a / b)
      else if a > 0 then PInf else if a < 0 then NInf else NaN)"
| "jdiv (Fin a) b = Fin 0"
| "jdiv PInf (Fin b) = (if b \<ge> 0 then PInf else NInf)"
| "jdiv NInf (Fin b) = (if b \<ge> 0 then NInf else PInf)"
| "jdiv a b = NaN"

fun jsqrt :: "jsnum \<Rightarrow> jsnum" where
  "jsqrt (Fin a) = (if a < 0 then NaN else Fin (sqrt a))"
| "jsqrt PInf = PInf"
| "jsqrt NInf = NaN"
| "jsqrt NaN = NaN"

text \<open>\<open>a < b\<close> and \<open>a > b\<close>: false as soon as one side is \<open>NaN\<close>.\<close>

fun jlt :: "jsnum \<Rightarrow> jsnum \<Rightarrow> bool" where
  "jlt (Fin a) (Fin b) = (a < b)"
| "jlt NaN b = False"
| "jlt a NaN = False"
| "jlt a NInf = False"
| "jlt PInf b = False"
| "jlt a b = True"

definition jgt :: "jsnum \<Rightarrow> jsnum \<Rightarrow> bool" where
  "jgt a b = jlt b a"

definition jle :: "jsnum \<Rightarrow> jsnum \<Rightarrow> bool" where
  "jle a b = (jlt a b \<or> (a = b \<and> a \<noteq> NaN))"

text \<open>\<open>Math.max(a, b)\<close> and \<open>Math.min(a, b)\<close>: \<open>NaN\<close> if either argument is.\<close>

definition Math_max :: "jsnum \<Rightarrow> jsnum \<Rightarrow> jsnum" where
  "Math_max a b = (if a = NaN \<or> b = NaN then NaN else if jlt a b then b else a)"

definition Math_min :: "jsnum \<Rightarrow> jsnum \<Rightarrow> jsnum" where
  "Math_min a b = (if a = NaN \<or> b = NaN then NaN else if jlt b a then b else a)"

text \<open>\<open>a || b\<close> on numbers: \<open>0\<close> and \<open>NaN\<close> are the falsy ones.\<close>

definition or_else :: "jsnum \<Rightarrow> jsnum \<Rightarrow> jsnum" where
  "or_else a b = (if a = Fin 0 \<or> a = NaN then b else a)"

section \<open>Vector3\<close>

text \<open>
  Modelled from the spec: the vector math utility (section 4.1) is the \<open>THREE.Vector3\<close>
  class of the three.js library, which \<open>simulation.js\<close> calls and does not contain.
  Its operations are componentwise; \<open>normalize\<close> divides by \<open>length() || 1\<close>, so the zero
  vector normalizes to itself, and \<open>divideScalar(s)\<close> multiplies by \<open>1 / s\<close>.
\<close>

datatype vector3 = Vector3 (vx: jsnum) (vy: jsnum) (vz: jsnum)

definition zero_vec :: vector3 where
  "zero_vec = Vector3 (Fin 0) (Fin 0) (Fin 0)"

fun add :: "vector3 \<Rightarrow> vector3 \<Rightarrow> vector3" where
  "add (Vector3 a b c) (Vector3 d e f) = Vector3 (jadd a d) (jadd b e) (jadd c f)"

fun subVectors :: "vector3 \<Rightarrow> vector3 \<Rightarrow> vector3" where
  "subVectors (Vector3 a b c) (Vector3 d e f) = Vector3 (jsub a d) (jsub b e) (jsub c f)"

fun multiplyScalar :: "vector3 \<Rightarrow> jsnum \<Rightarrow> vector3" where
  "multiplyScalar (Vector3 a b c) s = Vector3 (jmul a s) (jmul b s) (jmul c s)"

definition divideScalar :: "vector3 \<Rightarrow> jsnum \<Rightarrow> vector3" where
  "divideScalar v s = multiplyScalar v (jdiv (Fin 1) s)"

fun length_vec :: "vector3 \<Rightarrow> jsnum" where
  "length_vec (Vector3 a b c) = jsqrt (jadd (jadd (jmul a a) (jmul b b)) (jmul c c))"

definition normalize_vec :: "vector3 \<Rightarrow> vector3" where
  "normalize_vec v = divideScalar v (or_else (length_vec v) (Fin 1))"

definition distanceTo :: "vector3 \<Rightarrow> vector3 \<Rightarrow> jsnum" where
  "distanceTo v w = length_vec (subVectors v w)"

section \<open>Robot\<close>

text \<open>
  The fields of \<open>Robot\<close> that the motion reads or writes. The meshes, the wheels and the
  particles of the trail are rendering state and are left out; \<open>intensity\<close> is the
  intensity of the trail's light, the one thing \<open>update\<close> draws a random number for.
  A robot is identified by its index in the \<open>robots\<close> array: \<open>other !== this\<close> is
  \<open>j \<noteq> i\<close>.
\<close>

record robot =
  position :: vector3
  velocity :: vector3
  maxSpeed :: jsnum
  maxForce :: jsnum
  goalWeight :: jsnum
  hue :: jsnum
  intensity :: jsnum

definition floorSize :: jsnum where
  "floorSize = Fin 50"

text \<open>\<open>if (v.length() > m) v.normalize().multiplyScalar(m)\<close>, as every force and the velocity are limited.\<close>

definition limit :: "vector3 \<Rightarrow> jsnum \<Rightarrow> vector3" where
  "limit v m = (if jgt (length_vec v) m then multiplyScalar (normalize_vec v) m else v)"

definition seek :: "robot \<Rightarrow> vector3 \<Rightarrow> vector3" where
  "seek this target =
     (let desired = subVectors target (position this);
          desired = multiplyScalar (normalize_vec desired) (maxSpeed this);
          steer = subVectors desired (velocity this)
      in limit steer (maxForce this))"

text \<open>The body of the loop shared by \<open>separate\<close> (over the other robots) and \<open>avoidObstacles\<close>.\<close>

definition repel :: "jsnum \<Rightarrow> robot \<Rightarrow> vector3 \<Rightarrow> vector3 \<times> nat \<Rightarrow> vector3 \<times> nat" where
  "repel radius this p acc =
     (let d = distanceTo (position this) p
      in if jlt d radius
         then (let diff = subVectors (position this) p;
                   diff = normalize_vec diff;
                   diff = divideScalar diff d
               in (add (fst acc) diff, Suc (snd acc)))
         else acc)"

text \<open>What \<open>separate\<close> and \<open>avoidObstacles\<close> do with the accumulated \<open>steer\<close> and \<open>count\<close>.\<close>

definition steer_away :: "robot \<Rightarrow> vector3 \<times> nat \<Rightarrow> vector3" where
  "steer_away this acc =
     (let steer = fst acc; count = snd acc
      in if count > 0
         then (let steer = divideScalar steer (Fin (real count))
               in if jgt (length_vec steer) (Fin 0)
                  then (let steer = subVectors (multiplyScalar (normalize_vec steer) (maxSpeed this))
                                               (velocity this)
                        in limit steer (maxForce this))
                  else steer)
         else steer)"

definition separate :: "nat \<Rightarrow> robot list \<Rightarrow> vector3" where
  "separate i robots =
     (let this = robots ! i;
          desiredSeparation = Fin 3
      in steer_away this
           (fold (\<lambda>(j, other) acc.
                    if j \<noteq> i then repel desiredSeparation this (position other) acc else acc)
                 (enumerate 0 robots) (zero_vec, 0)))"

definition avoidObstacles :: "robot \<Rightarrow> vector3 list \<Rightarrow> vector3" where
  "avoidObstacles this obstacles =
     (let avoidRadius = Fin 4
      in steer_away this
           (fold (\<lambda>obstacle acc. repel avoidRadius this obstacle acc) obstacles (zero_vec, 0)))"

text \<open>The loop of \<open>cohere\<close> (with \<open>pick = position\<close>) and of \<open>align\<close> (with \<open>pick = velocity\<close>).\<close>

definition gather :: "(robot \<Rightarrow> vector3) \<Rightarrow> nat \<Rightarrow> robot \<Rightarrow> nat \<times> robot \<Rightarrow> vector3 \<times> nat \<Rightarrow> vector3 \<times> nat" where
  "gather pick i this jo acc =
     (let neighborDist = Fin 8
      in if fst jo \<noteq> i
         then (let d = distanceTo (position this) (position (snd jo))
               in if jlt d neighborDist then (add (fst acc) (pick (snd jo)), Suc (snd acc)) else acc)
         else acc)"

definition cohere :: "nat \<Rightarrow> robot list \<Rightarrow> vector3" where
  "cohere i robots =
     (let this = robots ! i;
          (sum, count) = fold (gather position i this) (enumerate 0 robots) (zero_vec, 0)
      in if count > 0 then seek this (divideScalar sum (Fin (real count))) else zero_vec)"

definition align :: "nat \<Rightarrow> robot list \<Rightarrow> vector3" where
  "align i robots =
     (let this = robots ! i;
          (sum, count) = fold (gather velocity i this) (enumerate 0 robots) (zero_vec, 0)
      in if count > 0
         then (let sum = divideScalar sum (Fin (real count));
                   sum = multiplyScalar (normalize_vec sum) (maxSpeed this);
                   steer = subVectors sum (velocity this)
               in limit steer (maxForce this))
         else zero_vec)"

text \<open>
  \<open>Robot.update\<close>, for the robot at index \<open>i\<close>; \<open>u\<close> is the value \<open>Math.random()\<close> returns
  to the trail. The mesh rotation and the wheels are rendering state.
\<close>

definition keep_within :: "jsnum \<Rightarrow> jsnum" where
  "keep_within c =
     (let halfFloor = jdiv floorSize (Fin 2)
      in Math_max (jadd (jneg halfFloor) (Fin 2)) (Math_min (jsub halfFloor (Fin 2)) c))"

definition update :: "real \<Rightarrow> nat \<Rightarrow> robot list \<Rightarrow> vector3 list \<Rightarrow> vector3 \<Rightarrow> robot" where
  "update u i robots obstacles goalPosition =
     (let this = robots ! i;
          separation = separate i robots;
          cohesion = cohere i robots;
          alignment = align i robots;
          avoidance = avoidObstacles this obstacles;
          goalSeek = multiplyScalar (seek this goalPosition) (goalWeight this);
          v = add (velocity this) (multiplyScalar separation (Fin (3/2)));
          v = add v (multiplyScalar cohesion (Fin (1/2)));
          v = add v (multiplyScalar alignment (Fin (1/2)));
          v = add v (multiplyScalar avoidance (Fin 2));
          v = add v goalSeek;
          v = limit v (maxSpeed this);
          p = add (position this) v;
          p = Vector3 (keep_within (vx p)) (Fin (2/5)) (keep_within (vz p))
      in this\<lparr>position := p, velocity := v, intensity := Fin (1/2 + u * (1/2))\<rparr>)"

section \<open>The simulation\<close>

text \<open>
  The module's variables. \<open>Math.random()\<close> is a sequence \<open>random\<close> of numbers from 0
  up to but not including 1, of which \<open>drawn\<close> have been taken. An obstacle is its mesh
  position, the one thing the robots read; \<open>goalVisible\<close> is \<open>goalMarker.visible\<close>. In
  \<open>lastTime\<close>, \<open>NaN\<close> also stands for \<open>undefined\<close>, which arithmetic turns into \<open>NaN\<close>.
  The scene, the camera and the browser's frame scheduler (\<open>animationId\<close>) are outside
  the model.
\<close>

record simulation =
  robots :: "robot list"
  obstacles :: "vector3 list"
  goalPosition :: vector3
  goalVisible :: bool
  isRunning :: bool
  lastTime :: jsnum
  random :: "nat \<Rightarrow> real"
  drawn :: nat

datatype obstacleType = Box real | Cylinder real real | Sphere real

definition obstacleTypes :: "obstacleType list" where
  "obstacleTypes = [Box 2, Cylinder 1 3, Sphere (3/2)]"

text \<open>\<open>createObstacle\<close>: the position of the mesh it returns.\<close>

fun createObstacle :: "obstacleType \<Rightarrow> vector3 \<Rightarrow> vector3" where
  "createObstacle (Box side) p = Vector3 (vx p) (Fin (side / 2)) (vz p)"
| "createObstacle (Cylinder radius height) p = Vector3 (vx p) (Fin (height / 2)) (vz p)"
| "createObstacle (Sphere radius) p = Vector3 (vx p) (Fin radius) (vz p)"

text \<open>A random coordinate on the floor: \<open>(Math.random() - 0.5) * (floorSize - 4)\<close>.\<close>

definition on_floor :: "real \<Rightarrow> jsnum" where
  "on_floor u = jmul (jsub (Fin u) (Fin (1/2))) (jsub floorSize (Fin 4))"

text \<open>One round of the loop that places the obstacles; it takes three random numbers.\<close>

definition place_obstacle :: "simulation \<Rightarrow> simulation" where
  "place_obstacle s =
     (let k = drawn s;
          type = obstacleTypes ! nat \<lfloor>random s k * real (length obstacleTypes)\<rfloor>;
          p = Vector3 (on_floor (random s (k + 1))) (Fin 0) (on_floor (random s (k + 2)))
      in s\<lparr>obstacles := obstacles s @ [createObstacle type p], drawn := k + 3\<rparr>)"

definition obstacleCount :: nat where
  "obstacleCount = 8"

text \<open>The constructor of \<open>Robot\<close>; it takes five random numbers starting at the \<open>k\<close>-th.\<close>

definition new_Robot :: "(nat \<Rightarrow> real) \<Rightarrow> nat \<Rightarrow> robot" where
  "new_Robot rnd k =
     \<lparr>position = Vector3 (on_floor (rnd k)) (Fin (2/5)) (on_floor (rnd (k + 1))),
      velocity = Vector3 (jmul (jsub (Fin (rnd (k + 2))) (Fin (1/2))) (Fin (1/10))) (Fin 0)
                         (jmul (jsub (Fin (rnd (k + 3))) (Fin (1/2))) (Fin (1/10))),
      maxSpeed = Fin (1/5),
      maxForce = Fin (3/100),
      goalWeight = Fin (1/2),
      hue = Fin (rnd (k + 4)),
      intensity = Fin 1\<rparr>"

text \<open>The loop of \<open>initializeRobots\<close>: \<open>n\<close> more rounds of \<open>robots.push(new Robot())\<close>.\<close>

fun push_robots :: "nat \<Rightarrow> simulation \<Rightarrow> simulation" where
  "push_robots 0 s = s"
| "push_robots (Suc n) s =
     push_robots n (s\<lparr>robots := robots s @ [new_Robot (random s) (drawn s)],
                      drawn := drawn s + 5\<rparr>)"

text \<open>\<open>for (let i = 0; i < count; i++)\<close> runs \<open>count\<close> times, and not at all when \<open>count < 0\<close>.\<close>

definition initializeRobots :: "int \<Rightarrow> simulation \<Rightarrow> simulation" where
  "initializeRobots count s = push_robots (nat count) (s\<lparr>robots := []\<rparr>)"

text \<open>One round of the loop of \<open>animate\<close>: \<open>robot.update(robots)\<close> on the \<open>k\<close>-th robot, in place.\<close>

definition update_robot :: "nat \<Rightarrow> simulation \<Rightarrow> simulation" where
  "update_robot k s =
     s\<lparr>robots := (robots s)[k := update (random s (drawn s)) k (robots s) (obstacles s) (goalPosition s)],
       drawn := Suc (drawn s)\<rparr>"

definition animate :: "jsnum \<Rightarrow> simulation \<Rightarrow> simulation" where
  "animate currentTime s =
     (if \<not> isRunning s then s
      else (let deltaTime = jdiv (jsub currentTime (lastTime s)) (Fin 1000);
                s = s\<lparr>lastTime := currentTime\<rparr>
            in fold update_robot [0..<length (robots s)] s))"

text \<open>\<open>startSimulation\<close> calls \<open>animate()\<close> with no argument: \<open>currentTime\<close> is \<open>undefined\<close>.\<close>

definition startSimulation :: "simulation \<Rightarrow> simulation" where
  "startSimulation s = (if \<not> isRunning s then animate NaN (s\<lparr>isRunning := True\<rparr>) else s)"

definition stopSimulation :: "simulation \<Rightarrow> simulation" where
  "stopSimulation s = (if isRunning s then s\<lparr>isRunning := False\<rparr> else s)"

text \<open>
  \<open>onMouseClick\<close>: \<open>hit\<close> is \<open>intersects[0].point\<close>, the point of the floor under the
  pointer found by the ray caster, or \<open>None\<close> when the ray misses the floor.
\<close>

definition onMouseClick :: "vector3 option \<Rightarrow> simulation \<Rightarrow> simulation" where
  "onMouseClick hit s =
     (case hit of
        None \<Rightarrow> s
      | Some point \<Rightarrow> s\<lparr>goalPosition := Vector3 (vx point) (Fin (2/5)) (vz point),
                        goalVisible := True\<rparr>)"

text \<open>
  The click handler of \<open>addRobotBtn\<close>: \<open>count\<close> is what \<open>parseInt\<close> made of the input
  field, \<open>None\<close> for \<open>NaN\<close>.
\<close>

definition addRobotBtn_click :: "int option \<Rightarrow> simulation \<Rightarrow> simulation" where
  "addRobotBtn_click count s =
     (case count of
        None \<Rightarrow> s
      | Some c \<Rightarrow>
          if c \<ge> 3 \<and> c \<le> 7
          then (let s = initializeRobots c s
                in if isRunning s then startSimulation (stopSimulation s) else s)
          else s)"

text \<open>The state when the script has run: eight obstacles, three robots, stopped, goal at the origin.\<close>

definition loaded :: "(nat \<Rightarrow> real) \<Rightarrow> simulation" where
  "loaded rnd =
     initializeRobots 3
       ((place_obstacle ^^ obstacleCount)
          \<lparr>robots = [], obstacles = [], goalPosition = Vector3 (Fin 0) (Fin 0) (Fin 0),
           goalVisible = False, isRunning = False, lastTime = Fin 0, random = rnd, drawn = 0\<rparr>)"

text \<open>What can happen afterwards: an animation frame at some time, or one of the four clicks.\<close>

datatype event =
    Frame jsnum
  | StartClick
  | StopClick
  | AddRobotClick "int option"
  | CanvasClick "vector3 option"

fun handle :: "event \<Rightarrow> simulation \<Rightarrow> simulation" where
  "handle (Frame t) s = animate t s"
| "handle StartClick s = startSimulation s"
| "handle StopClick s = stopSimulation s"
| "handle (AddRobotClick count) s = addRobotBtn_click count s"
| "handle (CanvasClick hit) s = onMouseClick hit s"

definition run :: "event list \<Rightarrow> simulation \<Rightarrow> simulation" where
  "run events s = fold handle events s"

section \<open>Auxiliary definitions\<close>

text \<open>The vector all of whose components are \<open>NaN\<close>.\<close>

definition nan_vec :: vector3 where
  "nan_vec = Vector3 NaN NaN NaN"

text \<open>The loop of \<open>animate\<close> after its first \<open>m\<close> rounds.\<close>

definition steps :: "nat \<Rightarrow> simulation \<Rightarrow> simulation" where
  "steps m s = fold update_robot [0..<m] s"

text \<open>
  A run in which \<open>Math.random()\<close> returns 0.5 every time: the script places every
  robot at rest in the middle of the floor, at \<open>(0, 0.4, 0)\<close>.
\<close>

definition always_half :: "nat \<Rightarrow> real" where
  "always_half k = 1/2"

definition middle :: robot where
  "middle = \<lparr>position = Vector3 (Fin 0) (Fin (2/5)) (Fin 0),
             velocity = Vector3 (Fin 0) (Fin 0) (Fin 0),
             maxSpeed = Fin (1/5), maxForce = Fin (3/100), goalWeight = Fin (1/2),
             hue = Fin (1/2), intensity = Fin 1\<rparr>"

text \<open>
  The spec's \<open>clampMagnitude(v, max)\<close> (section 4.1): \<open>v\<close> unchanged if its magnitude is at
  most \<open>max\<close>, else \<open>v\<close> rescaled to \<open>max\<close>.
\<close>

definition clampMagnitude :: "vector3 \<Rightarrow> jsnum \<Rightarrow> vector3" where
  "clampMagnitude v m = (if jle (length_vec v) m then v else multiplyScalar (normalize_vec v) m)"

text \<open>The events that set the goal: a click on the canvas whose ray meets the floor.\<close>

fun sets_goal :: "event \<Rightarrow> bool" where
  "sets_goal (CanvasClick (Some p)) = True"
| "sets_goal e = False"

text \<open>
  The spec's step (section 4.3): every robot's new state is computed from the state of
  all robots before the step, and all new states are committed together.
\<close>

definition spec_step :: "simulation \<Rightarrow> robot list" where
  "spec_step s =
     map (\<lambda>k. update (random s (drawn s + k)) k (robots s) (obstacles s) (goalPosition s))
         [0..<length (robots s)]"

text \<open>A robot at rest, 0.3 away from the point of the floor below the origin.\<close>

definition lone :: robot where
  "lone = \<lparr>position = Vector3 (Fin (3/10)) (Fin (2/5)) (Fin 0),
           velocity = Vector3 (Fin 0) (Fin 0) (Fin 0),
           maxSpeed = Fin (1/5), maxForce = Fin (3/100), goalWeight = Fin (1/2),
           hue = Fin (1/2), intensity = Fin 1\<rparr>"

text \<open>
  A running simulation: two robots 5 apart on the line towards the goal, drifting away
  from each other, a third robot and the eight obstacles far from both.
\<close>

definition left_robot :: robot where
  "left_robot = \<lparr>position = Vector3 (Fin 0) (Fin (2/5)) (Fin 0),
                 velocity = Vector3 (Fin (- (1/100))) (Fin 0) (Fin 0),
                 maxSpeed = Fin (1/5), maxForce = Fin (3/100), goalWeight = Fin (1/2),
                 hue = Fin (1/2), intensity = Fin 1\<rparr>"

definition right_robot :: robot where
  "right_robot = \<lparr>position = Vector3 (Fin 5) (Fin (2/5)) (Fin 0),
                  velocity = Vector3 (Fin (1/100)) (Fin 0) (Fin 0),
                  maxSpeed = Fin (1/5), maxForce = Fin (3/100), goalWeight = Fin (1/2),
                  hue = Fin (1/2), intensity = Fin 1\<rparr>"

definition far_robot :: robot where
  "far_robot = \<lparr>position = Vector3 (Fin 0) (Fin (2/5)) (Fin 20),
                velocity = Vector3 (Fin 0) (Fin 0) (Fin 0),
                maxSpeed = Fin (1/5), maxForce = Fin (3/100), goalWeight = Fin (1/2),
                hue = Fin (1/2), intensity = Fin 1\<rparr>"

definition far_obstacles :: "vector3 list" where
  "far_obstacles =
     [Vector3 (Fin (- 20)) (Fin 1) (Fin (- 20)), Vector3 (Fin (- 10)) (Fin (3/2)) (Fin (- 20)),
      Vector3 (Fin 0) (Fin (3/2)) (Fin (- 20)), Vector3 (Fin 10) (Fin 1) (Fin (- 20)),
      Vector3 (Fin 20) (Fin 1) (Fin (- 20)), Vector3 (Fin (- 20)) (Fin (3/2)) (Fin 10),
      Vector3 (Fin 20) (Fin (3/2)) (Fin 10), Vector3 (Fin 20) (Fin 1) (Fin 20)]"

definition line_goal :: vector3 where
  "line_goal = Vector3 (Fin 10) (Fin (2/5)) (Fin 0)"

definition three_robots :: simulation where
  "three_robots =
     \<lparr>robots = [left_robot, right_robot, far_robot], obstacles = far_obstacles,
      goalPosition = line_goal, goalVisible = True, isRunning = True, lastTime = Fin 0,
      random = always_half, drawn = 39\<rparr>"

text \<open>
  The velocity of the \<open>i\<close>-th robot with the five forces added, before it is limited to
  \<open>maxSpeed\<close>.
\<close>

definition blend :: "nat \<Rightarrow> robot list \<Rightarrow> vector3 list \<Rightarrow> vector3 \<Rightarrow> vector3" where
  "blend i rs obs goal =
     add (add (add (add (add (velocity (rs ! i))
                             (multiplyScalar (separate i rs) (Fin (3/2))))
                        (multiplyScalar (cohere i rs) (Fin (1/2))))
                   (multiplyScalar (align i rs) (Fin (1/2))))
              (multiplyScalar (avoidObstacles (rs ! i) obs) (Fin 2)))
         (multiplyScalar (seek (rs ! i) goal) (goalWeight (rs ! i)))"

text \<open>A run in which \<open>Math.random()\<close> returns 0, 0.01, 0.02, ... up to 0.99, and again.\<close>

definition ramp :: "nat \<Rightarrow> real" where
  "ramp k = real (k mod 100) / 100"

section \<open>Arithmetic with the special values\<close>

lemma jadd_zero [simp]: "jadd a (Fin 0) = a"
  by (cases a) simp_all

lemma jadd_NaN_right [simp]: "jadd a NaN = NaN"
  by (cases a) simp_all

lemma jlt_NaN_right [simp]: "jlt a NaN = False"
  by (cases a) simp_all

lemma jmul_NaN_right [simp]: "jmul a NaN = NaN"
  by (cases a) simp_all

lemma add_nan_vec_right [simp]: "add v nan_vec = nan_vec"
  by (cases v) (simp add: nan_vec_def)

lemma add_nan_vec [simp]: "add nan_vec v = nan_vec"
  by (cases v) (simp add: nan_vec_def)

lemma multiplyScalar_nan_vec [simp]: "multiplyScalar nan_vec s = nan_vec"
  by (simp add: nan_vec_def)

lemma length_nan_vec [simp]: "length_vec nan_vec = NaN"
  by (simp add: nan_vec_def)

lemma limit_nan_vec [simp]: "limit nan_vec m = nan_vec"
  by (simp add: limit_def jgt_def)

lemma add_zero_vec [simp]: "add v zero_vec = v"
  by (cases v) (simp add: zero_vec_def)

lemma multiplyScalar_zero_vec [simp]: "multiplyScalar zero_vec (Fin c) = zero_vec"
  by (simp add: zero_vec_def)

section \<open>Length and limit of a vector\<close>

lemma length_vec_Fin:
  "length_vec (Vector3 (Fin a) (Fin b) (Fin c)) = Fin (sqrt (a * a + b * b + c * c))"
proof -
  have "0 \<le> a * a + b * b + c * c" by (simp add: add_nonneg_nonneg)
  then show ?thesis by (simp add: not_less)
qed

lemma length_vec_NaN_iff:
  "length_vec (Vector3 a b c) = NaN \<longleftrightarrow> a = NaN \<or> b = NaN \<or> c = NaN"
  by (cases a; cases b; cases c) (simp_all add: not_less add_nonneg_nonneg)

lemma length_vec_cases:
  "(\<exists>a b c. v = Vector3 (Fin a) (Fin b) (Fin c)) \<or> length_vec v = NaN \<or> length_vec v = PInf"
proof (cases v)
  case (Vector3 a b c)
  then show ?thesis by (cases a; cases b; cases c) simp_all
qed

text \<open>A finite vector longer than \<open>m\<close> is cut to length \<open>m\<close> exactly.\<close>

lemma limit_Fin_length:
  assumes "0 \<le> m" and "m < sqrt (a * a + b * b + c * c)"
  shows "length_vec (limit (Vector3 (Fin a) (Fin b) (Fin c)) (Fin m)) = Fin m"
proof -
  define l where "l = sqrt (a * a + b * b + c * c)"
  have lpos: "0 < l" using assms unfolding l_def by linarith
  have sq: "l * l = a * a + b * b + c * c"
    unfolding l_def by (simp add: add_nonneg_nonneg)
  have "(a * (1 / l) * m) * (a * (1 / l) * m) + (b * (1 / l) * m) * (b * (1 / l) * m)
        + (c * (1 / l) * m) * (c * (1 / l) * m) = (a * a + b * b + c * c) * ((m / l) * (m / l))"
    using lpos by (simp add: field_simps)
  also have "\<dots> = (l * l) * ((m / l) * (m / l))" by (simp only: sq)
  also have "\<dots> = m * m" using lpos by simp
  finally have e: "(a * (1 / l) * m) * (a * (1 / l) * m) + (b * (1 / l) * m) * (b * (1 / l) * m)
        + (c * (1 / l) * m) * (c * (1 / l) * m) = m * m" .
  have len: "length_vec (Vector3 (Fin a) (Fin b) (Fin c)) = Fin l"
    by (simp only: length_vec_Fin l_def)
  have n: "normalize_vec (Vector3 (Fin a) (Fin b) (Fin c))
           = Vector3 (Fin (a * (1 / l))) (Fin (b * (1 / l))) (Fin (c * (1 / l)))"
    using lpos by (simp add: normalize_vec_def len divideScalar_def or_else_def del: length_vec.simps)
  have "limit (Vector3 (Fin a) (Fin b) (Fin c)) (Fin m)
        = Vector3 (Fin (a * (1 / l) * m)) (Fin (b * (1 / l) * m)) (Fin (c * (1 / l) * m))"
    using assms(2) by (simp add: limit_def jgt_def len n l_def [symmetric] del: length_vec.simps)
  then show ?thesis
    using assms(1) by (simp only: length_vec_Fin e) simp
qed

text \<open>A vector with an infinite component comes out of \<open>limit\<close> with a \<open>NaN\<close> component.\<close>

lemma limit_not_finite:
  assumes "length_vec v = PInf"
  shows "length_vec (limit v (Fin m)) = NaN"
proof (cases v)
  case (Vector3 a b c)
  with assms show ?thesis
    by (cases a; cases b; cases c)
       (simp_all add: limit_def jgt_def normalize_vec_def divideScalar_def or_else_def split: if_splits)
qed

lemma limit_bound:
  assumes "0 \<le> m"
  shows "length_vec (limit v (Fin m)) = NaN \<or> jle (length_vec (limit v (Fin m))) (Fin m)"
proof -
  consider (fin) a b c where "v = Vector3 (Fin a) (Fin b) (Fin c)"
    | (nan) "length_vec v = NaN" | (inf) "length_vec v = PInf"
    using length_vec_cases by blast
  then show ?thesis
  proof cases
    case fin
    show ?thesis
    proof (cases "m < sqrt (a * a + b * b + c * c)")
      case True
      then show ?thesis using limit_Fin_length [OF assms True] fin by (simp add: jle_def)
    next
      case False
      then show ?thesis using fin by (auto simp add: limit_def jgt_def length_vec_Fin jle_def)
    qed
  next
    case nan
    then show ?thesis by (simp add: limit_def jgt_def)
  next
    case inf
    then show ?thesis using limit_not_finite by simp
  qed
qed

lemma keep_within_Fin: "keep_within (Fin c) = Fin (max (- 23) (min 23 c))"
  by (simp add: keep_within_def Let_def floorSize_def jsub_def Math_max_def Math_min_def max_def min_def)

lemma keep_within_bound:
  "keep_within c = NaN \<and> c = NaN \<or> (\<exists>r. keep_within c = Fin r \<and> - 23 \<le> r \<and> r \<le> 23)"
  by (cases c) (simp_all add: keep_within_def Let_def floorSize_def jsub_def Math_max_def Math_min_def)

section \<open>What one update does to a robot\<close>

lemma update_velocity:
  "velocity (update u i rs obs goal) =
     limit (add (add (add (add (add (velocity (rs ! i))
                                    (multiplyScalar (separate i rs) (Fin (3/2))))
                               (multiplyScalar (cohere i rs) (Fin (1/2))))
                          (multiplyScalar (align i rs) (Fin (1/2))))
                     (multiplyScalar (avoidObstacles (rs ! i) obs) (Fin 2)))
                (multiplyScalar (seek (rs ! i) goal) (goalWeight (rs ! i))))
           (maxSpeed (rs ! i))"
  by (simp add: update_def Let_def)

lemma update_position:
  "position (update u i rs obs goal) =
     Vector3 (keep_within (vx (add (position (rs ! i)) (velocity (update u i rs obs goal)))))
             (Fin (2/5))
             (keep_within (vz (add (position (rs ! i)) (velocity (update u i rs obs goal)))))"
  by (simp add: update_def Let_def)

lemma update_constants [simp]:
  "maxSpeed (update u i rs obs goal) = maxSpeed (rs ! i)"
  "maxForce (update u i rs obs goal) = maxForce (rs ! i)"
  "goalWeight (update u i rs obs goal) = goalWeight (rs ! i)"
  by (simp_all add: update_def Let_def)

text \<open>Unless it is \<open>NaN\<close>, the speed after an update is at most \<open>maxSpeed\<close>.\<close>

lemma update_speed_bound:
  assumes "maxSpeed (rs ! i) = Fin m" and "0 \<le> m"
  shows "length_vec (velocity (update u i rs obs goal)) = NaN
         \<or> jle (length_vec (velocity (update u i rs obs goal))) (Fin m)"
  unfolding update_velocity assms(1) using assms(2) by (rule limit_bound)

text \<open>Unless they are \<open>NaN\<close>, the horizontal coordinates after an update are within 23 of the centre.\<close>

lemma update_within_bounds:
  "(vx (position (update u i rs obs goal)) = NaN
      \<or> (\<exists>r. vx (position (update u i rs obs goal)) = Fin r \<and> - 23 \<le> r \<and> r \<le> 23))
   \<and> (vz (position (update u i rs obs goal)) = NaN
      \<or> (\<exists>r. vz (position (update u i rs obs goal)) = Fin r \<and> - 23 \<le> r \<and> r \<le> 23))
   \<and> vy (position (update u i rs obs goal)) = Fin (2/5)"
  using keep_within_bound by (subst (1 2 3 4 5) update_position) auto

section \<open>The loop of animate\<close>

lemma steps_0 [simp]: "steps 0 s = s"
  by (simp add: steps_def)

lemma steps_Suc: "steps (Suc m) s = update_robot m (steps m s)"
  by (simp add: steps_def)

lemma steps_frame [simp]:
  "length (robots (steps m s)) = length (robots s)"
  "obstacles (steps m s) = obstacles s"
  "goalPosition (steps m s) = goalPosition s"
  "goalVisible (steps m s) = goalVisible s"
  "isRunning (steps m s) = isRunning s"
  "lastTime (steps m s) = lastTime s"
  "random (steps m s) = random s"
  "drawn (steps m s) = drawn s + m"
  by (induction m) (simp_all add: steps_Suc update_robot_def)

text \<open>The first \<open>m\<close> rounds leave the robots from the \<open>m\<close>-th on as they were.\<close>

lemma steps_untouched: "m \<le> j \<Longrightarrow> robots (steps m s) ! j = robots s ! j"
  by (induction m) (simp_all add: steps_Suc update_robot_def)

text \<open>The \<open>k\<close>-th robot is written in round \<open>k\<close> and in no later round.\<close>

lemma steps_settled: "k < m \<Longrightarrow> robots (steps m s) ! k = robots (steps (Suc k) s) ! k"
proof (induction m)
  case 0
  then show ?case by simp
next
  case (Suc m)
  show ?case
  proof (cases "k = m")
    case True
    then show ?thesis by simp
  next
    case False
    with Suc have "robots (steps m s) ! k = robots (steps (Suc k) s) ! k" by simp
    moreover have "robots (steps (Suc m) s) ! k = robots (steps m s) ! k"
      using False by (simp add: steps_Suc update_robot_def)
    ultimately show ?thesis by simp
  qed
qed

text \<open>
  What round \<open>k\<close> reads: the robots before the \<open>k\<close>-th as the whole loop leaves them, the
  others as they were when the loop began.
\<close>

lemma steps_prefix:
  assumes "k \<le> m" and "m \<le> length (robots s)"
  shows "robots (steps k s) = take k (robots (steps m s)) @ drop k (robots s)"
proof (rule nth_equalityI)
  show "length (robots (steps k s)) = length (take k (robots (steps m s)) @ drop k (robots s))"
    using assms by simp
next
  fix j
  assume "j < length (robots (steps k s))"
  then have j: "j < length (robots s)" by simp
  show "robots (steps k s) ! j = (take k (robots (steps m s)) @ drop k (robots s)) ! j"
  proof (cases "j < k")
    case True
    then have "robots (steps k s) ! j = robots (steps (Suc j) s) ! j"
      by (rule steps_settled)
    moreover have "robots (steps m s) ! j = robots (steps (Suc j) s) ! j"
      using True assms(1) by (intro steps_settled) simp
    ultimately show ?thesis using True assms j by (simp add: nth_append)
  next
    case False
    then have "robots (steps k s) ! j = robots s ! j"
      by (intro steps_untouched) simp
    then show ?thesis using False assms j by (simp add: nth_append)
  qed
qed

lemma steps_nth:
  assumes "k < length (robots s)"
  shows "robots (steps (length (robots s)) s) ! k =
         update (random s (drawn s + k)) k
           (take k (robots (steps (length (robots s)) s)) @ drop k (robots s))
           (obstacles s) (goalPosition s)"
proof -
  let ?n = "length (robots s)"
  have "robots (steps ?n s) ! k = robots (steps (Suc k) s) ! k"
    using assms by (rule steps_settled)
  also have "\<dots> = update (random s (drawn s + k)) k (robots (steps k s)) (obstacles s) (goalPosition s)"
    using assms by (simp add: steps_Suc update_robot_def)
  also have "robots (steps k s) = take k (robots (steps ?n s)) @ drop k (robots s)"
    using assms by (intro steps_prefix) simp_all
  finally show ?thesis .
qed

lemma animate_running:
  "isRunning s \<Longrightarrow> animate t s = steps (length (robots s)) (s\<lparr>lastTime := t\<rparr>)"
  by (simp add: animate_def steps_def Let_def)

lemma animate_stopped: "\<not> isRunning s \<Longrightarrow> animate t s = s"
  by (simp add: animate_def)

lemma animate_nth:
  assumes "isRunning s" and "k < length (robots s)"
  shows "robots (animate t s) ! k =
         update (random s (drawn s + k)) k
           (take k (robots (animate t s)) @ drop k (robots s))
           (obstacles s) (goalPosition s)"
  using steps_nth [of k "s\<lparr>lastTime := t\<rparr>"] assms by (simp add: animate_running)

lemma animate_frame [simp]:
  "length (robots (animate t s)) = length (robots s)"
  "obstacles (animate t s) = obstacles s"
  "goalPosition (animate t s) = goalPosition s"
  "goalVisible (animate t s) = goalVisible s"
  "isRunning (animate t s) = isRunning s"
  "random (animate t s) = random s"
  by (cases "isRunning s"; simp add: animate_running animate_stopped)+

section \<open>The script's initial state\<close>

lemma push_robots_frame [simp]:
  "obstacles (push_robots n s) = obstacles s"
  "goalPosition (push_robots n s) = goalPosition s"
  "goalVisible (push_robots n s) = goalVisible s"
  "isRunning (push_robots n s) = isRunning s"
  "lastTime (push_robots n s) = lastTime s"
  "random (push_robots n s) = random s"
  "drawn (push_robots n s) = drawn s + 5 * n"
  "length (robots (push_robots n s)) = length (robots s) + n"
  by (induction n arbitrary: s) simp_all

lemma place_obstacles_frame [simp]:
  "robots ((place_obstacle ^^ n) s) = robots s"
  "goalPosition ((place_obstacle ^^ n) s) = goalPosition s"
  "goalVisible ((place_obstacle ^^ n) s) = goalVisible s"
  "isRunning ((place_obstacle ^^ n) s) = isRunning s"
  "lastTime ((place_obstacle ^^ n) s) = lastTime s"
  "random ((place_obstacle ^^ n) s) = random s"
  "drawn ((place_obstacle ^^ n) s) = drawn s + 3 * n"
  by (induction n) (simp_all add: place_obstacle_def Let_def)

lemma loaded_frame [simp]:
  "goalPosition (loaded rnd) = Vector3 (Fin 0) (Fin 0) (Fin 0)"
  "goalVisible (loaded rnd) = False"
  "isRunning (loaded rnd) = False"
  "random (loaded rnd) = rnd"
  "length (robots (loaded rnd)) = 3"
  by (simp_all add: loaded_def initializeRobots_def)

text \<open>An obstacle sits at height 1 or 1.5, never at the height 0.4 of the robots.\<close>

lemma createObstacle_height:
  "t \<in> set obstacleTypes \<Longrightarrow> vy (createObstacle t p) = Fin 1 \<or> vy (createObstacle t p) = Fin (3/2)"
  by (auto simp add: obstacleTypes_def)

lemma loaded_always_half: "robots (loaded always_half) = [middle, middle, middle]"
  by (simp add: loaded_def initializeRobots_def eval_nat_numeral new_Robot_def
      always_half_def on_floor_def jsub_def floorSize_def middle_def)

section \<open>Two robots in one place\<close>

lemma repel_same_place:
  assumes "position this = Vector3 (Fin a) (Fin b) (Fin c)" and "0 < r"
  shows "repel (Fin r) this (Vector3 (Fin a) (Fin b) (Fin c)) acc = (nan_vec, Suc (snd acc))"
  using assms
  by (cases "fst acc")
     (simp add: repel_def distanceTo_def jsub_def normalize_vec_def divideScalar_def
        or_else_def nan_vec_def)

lemma repel_nan_vec:
  "fst (repel r this p (nan_vec, n)) = nan_vec"
  by (simp add: repel_def Let_def)

lemma steer_away_nan_vec: "steer_away this (nan_vec, n) = nan_vec"
  by (simp add: steer_away_def Let_def divideScalar_def jgt_def)

text \<open>Once \<open>steer\<close> is \<open>NaN\<close> it stays so to the end of the loop.\<close>

lemma fold_repel_nan_vec:
  "fst (fold (\<lambda>(j, other) acc. if j \<noteq> i then repel r this (position other) acc else acc)
          xs (nan_vec, n)) = nan_vec"
proof (induction xs arbitrary: n)
  case Nil
  then show ?case by simp
next
  case (Cons x xs)
  obtain j other where x: "x = (j, other)" by (cases x)
  have "\<exists>n'. (if j \<noteq> i then repel r this (position other) (nan_vec, n) else (nan_vec, n)) = (nan_vec, n')"
    using repel_nan_vec [of r this "position other" n]
    by (cases "repel r this (position other) (nan_vec, n)") auto
  then obtain n' where
    "(if j \<noteq> i then repel r this (position other) (nan_vec, n) else (nan_vec, n)) = (nan_vec, n')" ..
  then show ?case using Cons.IH [of n'] by (simp add: x)
qed

text \<open>
  Whenever another robot is exactly where this one is, the separation force and the
  velocity after the update are \<open>NaN\<close>.
\<close>

lemma separate_coincident:
  assumes "i < length rs" and "j < length rs" and "j \<noteq> i"
    and "position (rs ! i) = Vector3 (Fin a) (Fin b) (Fin c)"
    and "position (rs ! j) = position (rs ! i)"
  shows "separate i rs = nan_vec"
proof -
  let ?f = "\<lambda>(j, other) acc. if j \<noteq> i then repel (Fin 3) (rs ! i) (position other) acc else acc"
  have "rs = take j rs @ rs ! j # drop (Suc j) rs"
    using assms(2) by (simp add: id_take_nth_drop)
  then have "enumerate 0 rs = enumerate 0 (take j rs @ rs ! j # drop (Suc j) rs)" by simp
  also have "\<dots> = enumerate 0 (take j rs) @ (j, rs ! j) # enumerate (Suc j) (drop (Suc j) rs)"
    using assms(2) by (simp add: enumerate_append_eq)
  finally have split: "enumerate 0 rs =
      enumerate 0 (take j rs) @ (j, rs ! j) # enumerate (Suc j) (drop (Suc j) rs)" .
  obtain v n where before: "fold ?f (enumerate 0 (take j rs)) (zero_vec, 0) = (v, n)"
    by (cases "fold ?f (enumerate 0 (take j rs)) (zero_vec, 0)")
  have "?f (j, rs ! j) (v, n) = (nan_vec, Suc n)"
    using assms(3) repel_same_place [OF assms(4), of 3 "(v, n)"] by (simp add: assms(4,5))
  then have "fold ?f (enumerate 0 rs) (zero_vec, 0) =
      fold ?f (enumerate (Suc j) (drop (Suc j) rs)) (nan_vec, Suc n)"
    by (simp only: split fold_append fold_Cons comp_apply before)
  then have "fst (fold ?f (enumerate 0 rs) (zero_vec, 0)) = nan_vec"
    by (simp only: fold_repel_nan_vec)
  then have "\<exists>m. fold ?f (enumerate 0 rs) (zero_vec, 0) = (nan_vec, m)"
    by (cases "fold ?f (enumerate 0 rs) (zero_vec, 0)") simp
  then show ?thesis
    by (auto simp add: separate_def Let_def steer_away_nan_vec)
qed

lemma update_coincident:
  assumes "i < length rs" and "j < length rs" and "j \<noteq> i"
    and "position (rs ! i) = Vector3 (Fin a) (Fin b) (Fin c)"
    and "position (rs ! j) = position (rs ! i)"
  shows "velocity (update u i rs obs goal) = nan_vec"
  by (simp add: update_velocity separate_coincident [OF assms])

lemma separate_middle: "separate 0 [middle, middle, middle] = nan_vec"
  by (simp add: separate_def enumerate_eq_zip upt_rec Let_def steer_away_nan_vec
      repel_same_place repel_nan_vec middle_def)

lemma avoidObstacles_same_place: "avoidObstacles middle [position middle] = nan_vec"
  by (simp add: avoidObstacles_def steer_away_nan_vec repel_same_place middle_def)

lemma update_same_place:
  "velocity (update u 0 [middle, middle, middle] obs goal) = nan_vec"
  "position (update u 0 [middle, middle, middle] obs goal) = Vector3 NaN (Fin (2/5)) NaN"
  "maxSpeed (update u 0 [middle, middle, middle] obs goal) = Fin (1/5)"
proof -
  show v: "velocity (update u 0 [middle, middle, middle] obs goal) = nan_vec"
    by (simp add: update_velocity separate_middle)
  show "position (update u 0 [middle, middle, middle] obs goal) = Vector3 NaN (Fin (2/5)) NaN"
    by (simp add: update_position v) (simp add: nan_vec_def keep_within_def Math_max_def Math_min_def)
  show "maxSpeed (update u 0 [middle, middle, middle] obs goal) = Fin (1/5)"
    by (simp add: middle_def)
qed

text \<open>The first robot after a click on Start, when the script had put all robots in one place.\<close>

lemma first_robot_after_start:
  "robots (run [StartClick] (loaded always_half)) ! 0 =
     update (always_half (drawn (loaded always_half))) 0 [middle, middle, middle]
       (obstacles (loaded always_half)) (Vector3 (Fin 0) (Fin 0) (Fin 0))"
proof -
  let ?s = "(loaded always_half)\<lparr>isRunning := True\<rparr>"
  have "run [StartClick] (loaded always_half) = animate NaN ?s"
    by (simp add: run_def startSimulation_def)
  moreover have "robots (animate NaN ?s) ! 0 =
      update (random ?s (drawn ?s + 0)) 0 (take 0 (robots (animate NaN ?s)) @ drop 0 (robots ?s))
        (obstacles ?s) (goalPosition ?s)"
    by (rule animate_nth) simp_all
  ultimately show ?thesis by (simp add: loaded_always_half)
qed

section \<open>The handlers\<close>

lemma steps_lastTime: "steps m (s\<lparr>lastTime := t\<rparr>) = (steps m s)\<lparr>lastTime := t\<rparr>"
  by (induction m) (simp_all add: steps_Suc update_robot_def)

lemma animate_any_time: "robots (animate t s) = robots (animate t' (s\<lparr>lastTime := l\<rparr>))"
  by (cases "isRunning s") (simp_all add: animate_running animate_stopped steps_lastTime)

lemma startSimulation_frame [simp]:
  "length (robots (startSimulation s)) = length (robots s)"
  "obstacles (startSimulation s) = obstacles s"
  "goalPosition (startSimulation s) = goalPosition s"
  "goalVisible (startSimulation s) = goalVisible s"
  "isRunning (startSimulation s) = True"
  by (simp_all add: startSimulation_def)

lemma stopSimulation_frame [simp]:
  "robots (stopSimulation s) = robots s"
  "obstacles (stopSimulation s) = obstacles s"
  "goalPosition (stopSimulation s) = goalPosition s"
  "goalVisible (stopSimulation s) = goalVisible s"
  "isRunning (stopSimulation s) = False"
  by (simp_all add: stopSimulation_def)

lemma initializeRobots_frame [simp]:
  "obstacles (initializeRobots n s) = obstacles s"
  "goalPosition (initializeRobots n s) = goalPosition s"
  "goalVisible (initializeRobots n s) = goalVisible s"
  "isRunning (initializeRobots n s) = isRunning s"
  "length (robots (initializeRobots n s)) = nat n"
  by (simp_all add: initializeRobots_def)

lemma addRobotBtn_click_frame [simp]:
  "obstacles (addRobotBtn_click c s) = obstacles s"
  "goalPosition (addRobotBtn_click c s) = goalPosition s"
  "goalVisible (addRobotBtn_click c s) = goalVisible s"
  "isRunning (addRobotBtn_click c s) = isRunning s"
  by (simp_all add: addRobotBtn_click_def Let_def split: option.split)

text \<open>The robots that \<open>n\<close> rounds of \<open>robots.push(new Robot())\<close> append.\<close>

lemma push_robots_robots:
  "robots (push_robots n s) =
     robots s @ map (\<lambda>k. new_Robot (random s) (drawn s + 5 * k)) [0..<n]"
proof (induction n arbitrary: s)
  case 0
  then show ?case by simp
next
  case (Suc n)
  have "map (\<lambda>k. new_Robot (random s) (drawn s + 5 * k)) [0..<Suc n] =
        new_Robot (random s) (drawn s) # map (\<lambda>k. new_Robot (random s) (drawn s + 5 + 5 * k)) [0..<n]"
    by (simp only: upt_conv_Cons [of 0 "Suc n"] map_Suc_upt [symmetric]) (simp add: add.assoc)
  then show ?case by (simp add: Suc.IH del: upt_Suc)
qed

lemma handle_keeps_goal:
  "\<not> sets_goal e \<Longrightarrow>
     goalPosition (handle e s) = goalPosition s \<and> goalVisible (handle e s) = goalVisible s"
proof (cases e)
  case (CanvasClick hit)
  assume "\<not> sets_goal e"
  with CanvasClick have "hit = None" by (cases hit) simp_all
  with CanvasClick show ?thesis by (simp add: onMouseClick_def)
qed simp_all

lemma run_keeps_goal:
  "\<forall>e \<in> set events. \<not> sets_goal e \<Longrightarrow>
     goalPosition (run events s) = goalPosition s \<and> goalVisible (run events s) = goalVisible s"
  unfolding run_def by (induction events arbitrary: s) (simp_all add: handle_keeps_goal)

text \<open>Where no \<open>NaN\<close> is compared, \<open>limit\<close> is the spec's \<open>clampMagnitude\<close>.\<close>

lemma limit_clampMagnitude:
  "length_vec v \<noteq> NaN \<Longrightarrow> m \<noteq> NaN \<Longrightarrow> limit v m = clampMagnitude v m"
  by (cases "length_vec v"; cases m) (auto simp add: limit_def clampMagnitude_def jgt_def jle_def)

section \<open>Evaluating the forces\<close>

lemma length_vec_FinI:
  assumes "0 \<le> l" and "l * l = a * a + b * b + c * c"
  shows "length_vec (Vector3 (Fin a) (Fin b) (Fin c)) = Fin l"
proof -
  have "sqrt (a * a + b * b + c * c) = l"
    using assms by (metis abs_of_nonneg real_sqrt_abs2)
  then show ?thesis by (simp only: length_vec_Fin)
qed

lemma normalize_vec_FinI:
  assumes "0 < l" and "l * l = a * a + b * b + c * c"
  shows "normalize_vec (Vector3 (Fin a) (Fin b) (Fin c))
         = Vector3 (Fin (a / l)) (Fin (b / l)) (Fin (c / l))"
proof -
  have "length_vec (Vector3 (Fin a) (Fin b) (Fin c)) = Fin l"
    using assms by (intro length_vec_FinI) simp_all
  then show ?thesis
    using assms(1) by (simp add: normalize_vec_def divideScalar_def or_else_def del: length_vec.simps)
qed

lemma limit_cut:
  assumes "m < l" and "0 \<le> m" and "l * l = a * a + b * b + c * c"
  shows "limit (Vector3 (Fin a) (Fin b) (Fin c)) (Fin m)
         = Vector3 (Fin (a / l * m)) (Fin (b / l * m)) (Fin (c / l * m))"
proof -
  have l: "0 < l" using assms by simp
  have "length_vec (Vector3 (Fin a) (Fin b) (Fin c)) = Fin l"
    using l assms by (intro length_vec_FinI) simp_all
  then show ?thesis
    using assms(1) normalize_vec_FinI [OF l assms(3)]
    by (simp add: limit_def jgt_def del: length_vec.simps)
qed

lemma limit_keep:
  assumes "l \<le> m" and "0 \<le> l" and "l * l = a * a + b * b + c * c"
  shows "limit (Vector3 (Fin a) (Fin b) (Fin c)) (Fin m) = Vector3 (Fin a) (Fin b) (Fin c)"
proof -
  have "length_vec (Vector3 (Fin a) (Fin b) (Fin c)) = Fin l"
    using assms by (intro length_vec_FinI) simp_all
  then show ?thesis
    using assms(1) by (simp add: limit_def jgt_def del: length_vec.simps)
qed

text \<open>Vectors along the first axis.\<close>

lemma axis_length: "length_vec (Vector3 (Fin a) (Fin 0) (Fin 0)) = Fin \<bar>a\<bar>"
  by (simp add: not_less)

lemma axis_normalize:
  "normalize_vec (Vector3 (Fin a) (Fin 0) (Fin 0)) = Vector3 (Fin (sgn a)) (Fin 0) (Fin 0)"
  by (simp add: normalize_vec_def axis_length divideScalar_def or_else_def sgn_real_def
      del: length_vec.simps)

lemma axis_limit:
  "limit (Vector3 (Fin a) (Fin 0) (Fin 0)) (Fin m) =
     (if m < \<bar>a\<bar> then Vector3 (Fin (sgn a * m)) (Fin 0) (Fin 0)
      else Vector3 (Fin a) (Fin 0) (Fin 0))"
  by (simp add: limit_def jgt_def axis_length axis_normalize del: length_vec.simps)

text \<open>Comparing a length with a radius needs no square root.\<close>

lemma jlt_length_vec:
  "jlt (length_vec (Vector3 (Fin a) (Fin b) (Fin c))) (Fin r)
   \<longleftrightarrow> 0 < r \<and> a * a + b * b + c * c < r * r"
proof -
  have nn: "0 \<le> a * a + b * b + c * c" by (simp add: add_nonneg_nonneg)
  show ?thesis
  proof (cases "0 < r")
    case True
    then have "sqrt (a * a + b * b + c * c) < r \<longleftrightarrow> a * a + b * b + c * c < r * r"
      by (metis abs_of_pos real_sqrt_abs2 real_sqrt_less_iff)
    then show ?thesis using True by (simp only: length_vec_Fin jlt.simps) simp
  next
    case False
    then have "\<not> sqrt (a * a + b * b + c * c) < r"
      using real_sqrt_ge_zero [OF nn] by linarith
    then show ?thesis using False by (simp only: length_vec_Fin jlt.simps) simp
  qed
qed

lemmas force_defs = separate_def cohere_def align_def avoidObstacles_def gather_def repel_def
  steer_away_def seek_def distanceTo_def jsub_def divideScalar_def Let_def enumerate_eq_zip
  upt_rec zero_vec_def

section \<open>A robot alone\<close>

lemma lone_forces:
  "separate 0 [r] = zero_vec" "cohere 0 [r] = zero_vec" "align 0 [r] = zero_vec"
  "avoidObstacles r [] = zero_vec"
  by (simp_all add: separate_def cohere_def align_def avoidObstacles_def steer_away_def
      gather_def enumerate_eq_zip Let_def)

lemma lone_velocity:
  "velocity (update u 0 [r] [] goal) =
     limit (add (velocity r) (multiplyScalar (seek r goal) (goalWeight r))) (maxSpeed r)"
  by (simp add: update_velocity lone_forces)

lemma seek_lone:
  "seek lone (Vector3 (Fin 0) (Fin 0) (Fin 0)) = Vector3 (Fin (- (9/500))) (Fin (- (3/125))) (Fin 0)"
proof -
  have n: "normalize_vec (Vector3 (Fin (- (3/10))) (Fin (- (2/5))) (Fin 0))
           = Vector3 (Fin (- (3/5))) (Fin (- (4/5))) (Fin 0)"
    using normalize_vec_FinI [of "1/2" "- (3/10)" "- (2/5)" 0] by simp
  have c: "limit (Vector3 (Fin (- (3/25))) (Fin (- (4/25))) (Fin 0)) (Fin (3/100))
           = Vector3 (Fin (- (9/500))) (Fin (- (3/125))) (Fin 0)"
    using limit_cut [of "3/100" "1/5" "- (3/25)" "- (4/25)" 0] by simp
  show ?thesis
    by (simp add: seek_def lone_def jsub_def n c)
qed

lemma update_lone_velocity:
  "velocity (update u 0 [lone] [] (Vector3 (Fin 0) (Fin 0) (Fin 0)))
     = Vector3 (Fin (- (9/1000))) (Fin (- (3/250))) (Fin 0)"
proof -
  have k: "limit (Vector3 (Fin (- (9/1000))) (Fin (- (3/250))) (Fin 0)) (Fin (1/5))
           = Vector3 (Fin (- (9/1000))) (Fin (- (3/250))) (Fin 0)"
    using limit_keep [of "3/200" "1/5" "- (9/1000)" "- (3/250)" 0] by simp
  show ?thesis
    by (simp add: lone_velocity seek_lone) (simp add: lone_def k)
qed

lemma update_lone_position:
  "position (update u 0 [lone] [] (Vector3 (Fin 0) (Fin 0) (Fin 0)))
     = Vector3 (Fin (291/1000)) (Fin (2/5)) (Fin 0)"
  by (simp add: update_position update_lone_velocity) (simp add: lone_def keep_within_Fin)

section \<open>Two robots in sight of each other\<close>

lemma left_first:
  "velocity (update u 0 [left_robot, right_robot, far_robot] far_obstacles line_goal)
     = Vector3 (Fin (7/200)) (Fin 0) (Fin 0)"
  by (simp add: update_velocity force_defs axis_length axis_normalize axis_limit jlt_length_vec
      left_robot_def right_robot_def far_robot_def far_obstacles_def line_goal_def
      del: length_vec.simps)

lemma left_first_position:
  "position (update u 0 [left_robot, right_robot, far_robot] far_obstacles line_goal)
     = Vector3 (Fin (7/200)) (Fin (2/5)) (Fin 0)"
  by (simp add: update_position left_first) (simp add: left_robot_def keep_within_Fin)

text \<open>The second robot, computed from the state before the step.\<close>

lemma right_snapshot:
  "velocity (update u 1 [left_robot, right_robot, far_robot] far_obstacles line_goal)
     = Vector3 (Fin (- (1/200))) (Fin 0) (Fin 0)"
  by (simp add: update_velocity force_defs axis_length axis_normalize axis_limit jlt_length_vec
      left_robot_def right_robot_def far_robot_def far_obstacles_def line_goal_def
      del: length_vec.simps)

text \<open>The second robot, computed after the first has moved.\<close>

lemma right_after:
  assumes "position l = Vector3 (Fin (7/200)) (Fin (2/5)) (Fin 0)"
    and "velocity l = Vector3 (Fin (7/200)) (Fin 0) (Fin 0)"
  shows "velocity (update u 1 [l, right_robot, far_robot] far_obstacles line_goal)
         = Vector3 (Fin (1/40)) (Fin 0) (Fin 0)"
  by (simp add: update_velocity force_defs axis_length axis_normalize axis_limit jlt_length_vec
      assms right_robot_def far_robot_def far_obstacles_def line_goal_def
      del: length_vec.simps)

lemma animate_three_robots:
  "robots (animate t three_robots) ! 1 =
     update (1/2) 1 [update (1/2) 0 [left_robot, right_robot, far_robot] far_obstacles line_goal,
                     right_robot, far_robot] far_obstacles line_goal"
proof -
  have len: "length (robots three_robots) = 3"
    by (simp add: three_robots_def)
  have zero: "robots (animate t three_robots) ! 0 =
      update (1/2) 0 [left_robot, right_robot, far_robot] far_obstacles line_goal"
    using animate_nth [of three_robots 0 t] by (simp add: three_robots_def always_half_def)
  have "take 1 (robots (animate t three_robots)) = [robots (animate t three_robots) ! 0]"
    using len by (simp add: take_Suc_conv_app_nth)
  then show ?thesis
    using animate_nth [of three_robots 1 t] zero
    by (simp add: three_robots_def always_half_def)
qed

lemma spec_step_three_robots:
  "spec_step three_robots ! 1 =
     update (1/2) 1 [left_robot, right_robot, far_robot] far_obstacles line_goal"
  by (simp add: spec_step_def three_robots_def always_half_def)

section \<open>The limit of the velocity\<close>

lemma update_velocity_blend:
  "velocity (update u i rs obs goal) = limit (blend i rs obs goal) (maxSpeed (rs ! i))"
  by (simp add: update_velocity blend_def)

text \<open>
  Where the sum of the velocity and the forces is finite, the new velocity is that sum
  if it is no longer than \<open>maxSpeed\<close>, and else the sum rescaled to the length
  \<open>maxSpeed\<close>; its length is at most \<open>maxSpeed\<close>. This is exact arithmetic: the rounding
  of the code's doubles is not in it.
\<close>

lemma update_clamps_finite:
  assumes "blend i rs obs goal = Vector3 (Fin a) (Fin b) (Fin c)"
    and "maxSpeed (rs ! i) = Fin m" and "0 \<le> m"
  shows "velocity (update u i rs obs goal) =
           (if sqrt (a * a + b * b + c * c) \<le> m then Vector3 (Fin a) (Fin b) (Fin c)
            else Vector3 (Fin (a / sqrt (a * a + b * b + c * c) * m))
                         (Fin (b / sqrt (a * a + b * b + c * c) * m))
                         (Fin (c / sqrt (a * a + b * b + c * c) * m)))"
    and "jle (length_vec (velocity (update u i rs obs goal))) (Fin m)"
proof -
  let ?l = "sqrt (a * a + b * b + c * c)"
  have nn: "0 \<le> a * a + b * b + c * c" by (simp add: add_nonneg_nonneg)
  have sq: "?l * ?l = a * a + b * b + c * c" using nn by simp
  show "velocity (update u i rs obs goal) =
           (if ?l \<le> m then Vector3 (Fin a) (Fin b) (Fin c)
            else Vector3 (Fin (a / ?l * m)) (Fin (b / ?l * m)) (Fin (c / ?l * m)))"
  proof (cases "?l \<le> m")
    case True
    then show ?thesis
      using limit_keep [OF True _ sq] nn by (simp add: update_velocity_blend assms(1,2))
  next
    case False
    then have "m < ?l" by simp
    then show ?thesis
      using limit_cut [OF _ assms(3) sq] False by (simp add: update_velocity_blend assms(1,2))
  qed
  show "jle (length_vec (velocity (update u i rs obs goal))) (Fin m)"
  proof (cases "?l \<le> m")
    case True
    then show ?thesis
      using limit_keep [OF True _ sq] nn
      by (simp add: update_velocity_blend assms(1,2) length_vec_Fin jle_def del: length_vec.simps) auto
  next
    case False
    then have "m < ?l" by simp
    then show ?thesis
      using limit_Fin_length [OF assms(3), of a b c]
      by (simp add: update_velocity_blend assms(1,2) jle_def del: length_vec.simps)
  qed
qed


section \<open>The robots the constructor makes\<close>

lemma new_Robot_motion:
  "position (new_Robot rnd k) =
     Vector3 (Fin ((rnd k - 1/2) * 46)) (Fin (2/5)) (Fin ((rnd (k + 1) - 1/2) * 46))"
  "velocity (new_Robot rnd k) =
     Vector3 (Fin ((rnd (k + 2) - 1/2) * (1/10))) (Fin 0) (Fin ((rnd (k + 3) - 1/2) * (1/10)))"
  by (simp_all add: new_Robot_def on_floor_def jsub_def floorSize_def)

lemma initializeRobots_nth:
  "k < nat n \<Longrightarrow> robots (initializeRobots n s) ! k = new_Robot (random s) (drawn s + 5 * k)"
  by (simp add: initializeRobots_def push_robots_robots)

lemma initializeRobots_forgets: "initializeRobots n (s\<lparr>robots := rs\<rparr>) = initializeRobots n s"
  by (simp add: initializeRobots_def)

lemma initializeRobots_drawn: "drawn (initializeRobots n s) = drawn s + 5 * nat n"
  by (simp add: initializeRobots_def)

lemma initializeRobots_random: "random (initializeRobots n s) = random s"
  by (simp add: initializeRobots_def)

lemma drawn_loaded: "drawn (loaded rnd) = 39"
  by (simp add: loaded_def initializeRobots_def obstacleCount_def)

section \<open>The claims\<close>

text \<open>
  C5. The claim: in the separation and obstacle-avoidance forces, two entities at zero
  distance are guarded by a minimum-distance epsilon before \<open>1/distance\<close> is computed, so
  that the force is bounded, with no division by zero and no \<open>NaN\<close>, for every input.
  The code has no such guard. When \<open>Math.random()\<close> returns 0.5 every time, the script
  puts its three robots in one place, and the separation force of the first is \<open>NaN\<close>
  in every component. So is the avoidance force of a robot at the position of an obstacle,
  where the script's own obstacles, at height 1 or 1.5, never are.
\<close>

theorem zero_distance_is_not_guarded:
  "separate 0 (robots (loaded always_half)) = Vector3 NaN NaN NaN
   \<and> avoidObstacles middle [position middle] = Vector3 NaN NaN NaN"
  by (simp add: loaded_always_half separate_middle avoidObstacles_same_place)
     (simp add: nan_vec_def)

text \<open>
  C1. The claim: after every completed step the magnitude of every robot's velocity is at
  most its \<open>maxSpeed\<close>. In the same run, after the first step (the one a click on Start
  performs), the velocity of the first robot is \<open>NaN\<close> in every component, and its
  magnitude is not at most \<open>maxSpeed\<close>. Lemma \<open>update_coincident\<close> shows the same for
  any two robots in one place. In exact arithmetic a \<open>NaN\<close> is the one way the bound
  fails (lemma \<open>update_speed_bound\<close>); the rounding of the code's doubles is not modelled.
\<close>

theorem speed_bound_fails_in_one_place:
  "velocity (robots (run [StartClick] (loaded always_half)) ! 0) = Vector3 NaN NaN NaN
   \<and> \<not> jle (length_vec (velocity (robots (run [StartClick] (loaded always_half)) ! 0)))
            (maxSpeed (robots (run [StartClick] (loaded always_half)) ! 0))"
  by (simp add: first_robot_after_start update_same_place jle_def) (simp add: nan_vec_def)

text \<open>
  C2. The claim: after every completed step both horizontal coordinates of every robot
  lie within \<open>[-23, 23]\<close>, and the vertical one is the ground offset 0.4. In the same run,
  after the first step, the horizontal coordinates of the first robot are \<open>NaN\<close>, which
  lies in no interval; the vertical coordinate is 0.4. Lemma \<open>update_within_bounds\<close>
  shows that this is the one way the bounds fail.
\<close>

theorem bounds_fail_in_one_place:
  "position (robots (run [StartClick] (loaded always_half)) ! 0) = Vector3 NaN (Fin (2/5)) NaN
   \<and> \<not> (jle (Fin (- 23)) (vx (position (robots (run [StartClick] (loaded always_half)) ! 0)))
          \<and> jle (vx (position (robots (run [StartClick] (loaded always_half)) ! 0))) (Fin 23))"
  by (simp add: first_robot_after_start update_same_place jle_def)

text \<open>
  C10. The step of one robot is deterministic: the one random number \<open>update\<close> draws goes
  to the light of the trail, and the new position and velocity are the same whatever
  that number is.
\<close>

theorem update_ignores_randomness:
  "position (update u i rs obs goal) = position (update u' i rs obs goal)
   \<and> velocity (update u i rs obs goal) = velocity (update u' i rs obs goal)"
  by (simp add: update_def Let_def)


text \<open>
  C7. \<open>initializeRobots(n)\<close> leaves exactly \<open>n\<close> robots, for \<open>n \<ge> 0\<close>. It takes five
  random numbers for each, none of them taken before, and the position and the velocity
  of the \<open>k\<close>-th robot are made of four of its five: \<open>(u - 0.5) * 46\<close> for the horizontal
  coordinates, \<open>(u - 0.5) * 0.1\<close> for the horizontal velocities. The former robots do
  not enter the result. Neither \<open>initializeRobots\<close> nor the button's handler changes
  \<open>isRunning\<close>.
\<close>

theorem initializeRobots_fresh:
  "(0 \<le> n \<longrightarrow> int (length (robots (initializeRobots n s))) = n)
   \<and> drawn (initializeRobots n s) = drawn s + 5 * nat n
   \<and> initializeRobots n (s\<lparr>robots := rs\<rparr>) = initializeRobots n s
   \<and> isRunning (initializeRobots n s) = isRunning s
   \<and> isRunning (addRobotBtn_click c s) = isRunning s
   \<and> (k < nat n \<longrightarrow>
        position (robots (initializeRobots n s) ! k) =
          Vector3 (Fin ((random s (drawn s + 5 * k) - 1/2) * 46)) (Fin (2/5))
                  (Fin ((random s (drawn s + 5 * k + 1) - 1/2) * 46))
        \<and> velocity (robots (initializeRobots n s) ! k) =
          Vector3 (Fin ((random s (drawn s + 5 * k + 2) - 1/2) * (1/10))) (Fin 0)
                  (Fin ((random s (drawn s + 5 * k + 3) - 1/2) * (1/10))))"
  by (simp add: initializeRobots_nth initializeRobots_forgets initializeRobots_drawn
      new_Robot_motion add.assoc)

text \<open>
  Five robots, then three: the first of the three is made of the random numbers 64 to
  67, the first of the five was made of the numbers 39 to 42.
\<close>

theorem initializeRobots_fresh_witness:
  "int (length (robots (initializeRobots 3 (initializeRobots 5 (loaded ramp))))) = 3
   \<and> drawn (initializeRobots 3 (initializeRobots 5 (loaded ramp))) = 79
   \<and> position (robots (initializeRobots 3 (initializeRobots 5 (loaded ramp))) ! 0) =
       Vector3 (Fin (161/25)) (Fin (2/5)) (Fin (69/10))
   \<and> velocity (robots (initializeRobots 3 (initializeRobots 5 (loaded ramp))) ! 0) =
       Vector3 (Fin (2/125)) (Fin 0) (Fin (17/1000))
   \<and> position (robots (initializeRobots 5 (loaded ramp)) ! 0) =
       Vector3 (Fin (- (253/50))) (Fin (2/5)) (Fin (- (23/5)))"
  using initializeRobots_fresh [of 3 "initializeRobots 5 (loaded ramp)" "[]" None 0]
        initializeRobots_fresh [of 5 "loaded ramp" "[]" None 0]
  by (simp add: drawn_loaded initializeRobots_random ramp_def)

text \<open>
  C9. Once a click has set the goal to the point \<open>p\<close> of the floor (at the robots' height
  0.4), the goal stays there through every sequence of frames, clicks on Start, Stop and
  Add, and clicks that miss the floor: only another click on the floor changes it.
\<close>

theorem goal_persists:
  "\<forall>e \<in> set events. \<not> sets_goal e \<Longrightarrow>
     goalPosition (run events (onMouseClick (Some p) s)) = Vector3 (vx p) (Fin (2/5)) (vz p)
     \<and> goalVisible (run events (onMouseClick (Some p) s))"
  using run_keeps_goal [of events "onMouseClick (Some p) s"] by (simp add: onMouseClick_def)

theorem goal_persists_witness:
  "goalPosition (run [StartClick, Frame (Fin 16), Frame (Fin 32), StopClick, StartClick]
     (onMouseClick (Some (Vector3 (Fin 10) (Fin 0) (Fin 10))) (loaded always_half)))
   = Vector3 (Fin 10) (Fin (2/5)) (Fin 10)"
  using goal_persists [of "[StartClick, Frame (Fin 16), Frame (Fin 32), StopClick, StartClick]"
          "Vector3 (Fin 10) (Fin 0) (Fin 10)" "loaded always_half"]
  by simp

text \<open>
  C8. The claim: a negative count is rejected with an invalid-argument condition and is
  not silently clamped, in particular it does not quietly produce an empty population.
  \<open>initializeRobots\<close> has no error to return: called with \<open>-1\<close> on the three robots
  the script made, it leaves an empty population.
\<close>

theorem negative_count_is_not_rejected:
  "robots (initializeRobots (- 1) (loaded always_half)) = []
   \<and> length (robots (loaded always_half)) = 3"
  by (simp add: initializeRobots_def)

text \<open>
  C8, amended. For a negative count \<open>initializeRobots\<close> signals nothing: it discards the
  robots and leaves the population empty, the rest of the state as it was. The one range
  check is the button handler's, which ignores such a count and leaves the whole state
  as it was.
\<close>

theorem negative_count_empties:
  "n < 0 \<Longrightarrow> initializeRobots n s = s\<lparr>robots := []\<rparr> \<and> addRobotBtn_click (Some n) s = s"
  by (simp add: initializeRobots_def addRobotBtn_click_def)

theorem negative_count_empties_witness:
  "(- 1 :: int) < 0
   \<and> initializeRobots (- 1) (loaded always_half) = (loaded always_half)\<lparr>robots := []\<rparr>
   \<and> addRobotBtn_click (Some (- 1)) (loaded always_half) = loaded always_half"
  using negative_count_empties [of "- 1" "loaded always_half"] by simp

text \<open>
  C3. The claim: within one step every robot's new velocity and position are computed
  from the state of all robots before the step, no robot sees another's updated state,
  and the result does not depend on the order of processing. In \<open>three_robots\<close> the
  second robot is updated after the first has moved and turned: its new velocity is
  \<open>(0.025, 0, 0)\<close>, where the state before the step gives \<open>(-0.005, 0, 0)\<close>.
\<close>

theorem step_is_not_simultaneous:
  "velocity (robots (animate (Fin 16) three_robots) ! 1) = Vector3 (Fin (1/40)) (Fin 0) (Fin 0)
   \<and> velocity (spec_step three_robots ! 1) = Vector3 (Fin (- (1/200))) (Fin 0) (Fin 0)"
proof
  show "velocity (robots (animate (Fin 16) three_robots) ! 1) = Vector3 (Fin (1/40)) (Fin 0) (Fin 0)"
    unfolding animate_three_robots using left_first_position left_first by (rule right_after)
  show "velocity (spec_step three_robots ! 1) = Vector3 (Fin (- (1/200))) (Fin 0) (Fin 0)"
    unfolding spec_step_three_robots by (rule right_snapshot)
qed

text \<open>
  C3, amended. Within one step the robots are updated one after the other, in the order
  of the array and in place: the update of the \<open>k\<close>-th robot reads the robots before it
  as this step has left them, and itself and the robots after it as they were before
  the step.
\<close>

theorem step_is_sequential:
  "isRunning s \<Longrightarrow> k < length (robots s) \<Longrightarrow>
     robots (animate t s) ! k =
       update (random s (drawn s + k)) k
         (take k (robots (animate t s)) @ drop k (robots s))
         (obstacles s) (goalPosition s)"
  by (rule animate_nth)

theorem step_is_sequential_witness:
  "robots (animate (Fin 16) three_robots) ! 1 =
     update (1/2) 1
       (take 1 (robots (animate (Fin 16) three_robots)) @ [right_robot, far_robot])
       far_obstacles line_goal"
  using step_is_sequential [of three_robots 1 "Fin 16"]
  by (simp add: three_robots_def always_half_def)

text \<open>
  C4. The claim: when no goal has been set the goal-seeking contribution is zero, and a
  robot alone, with no obstacles and no goal, keeps its velocity and only drifts. The
  goal position exists from the start, at the origin, and \<open>update\<close> seeks it whether or
  not a goal was clicked: the robot \<open>lone\<close>, at rest, with the goal as the script leaves
  it, gets a velocity and moves.
\<close>

theorem unset_goal_attracts:
  "\<not> goalVisible (loaded always_half)
   \<and> velocity lone = Vector3 (Fin 0) (Fin 0) (Fin 0)
   \<and> position lone = Vector3 (Fin (3/10)) (Fin (2/5)) (Fin 0)
   \<and> velocity (update (1/2) 0 [lone] [] (goalPosition (loaded always_half)))
       = Vector3 (Fin (- (9/1000))) (Fin (- (3/250))) (Fin 0)
   \<and> position (update (1/2) 0 [lone] [] (goalPosition (loaded always_half)))
       = Vector3 (Fin (291/1000)) (Fin (2/5)) (Fin 0)"
  by (simp add: update_lone_velocity update_lone_position) (simp add: lone_def)

text \<open>
  C4, amended. The goal position is always there: it is the origin \<open>(0, 0, 0)\<close> until the
  first click on the floor, and \<open>update\<close> adds \<open>seek(goalPosition) * goalWeight\<close> whether
  or not a goal was clicked. For a robot alone with no obstacles the separation,
  cohesion, alignment and avoidance forces are zero: its new velocity is its velocity
  plus the goal-seeking contribution, limited to \<open>maxSpeed\<close>, and its new position is
  its position plus the new velocity, kept within the floor.
\<close>

theorem lone_robot_seeks_goal:
  "goalPosition (loaded rnd) = Vector3 (Fin 0) (Fin 0) (Fin 0)
   \<and> separate 0 [r] = zero_vec \<and> cohere 0 [r] = zero_vec \<and> align 0 [r] = zero_vec
   \<and> avoidObstacles r [] = zero_vec
   \<and> velocity (update u 0 [r] [] goal) =
       limit (add (velocity r) (multiplyScalar (seek r goal) (goalWeight r))) (maxSpeed r)
   \<and> position (update u 0 [r] [] goal) =
       Vector3 (keep_within (vx (add (position r) (velocity (update u 0 [r] [] goal)))))
               (Fin (2/5))
               (keep_within (vz (add (position r) (velocity (update u 0 [r] [] goal)))))"
  using update_position [of u 0 "[r]" "[]" goal] by (simp add: lone_forces lone_velocity)

end
